theory Spec2Isabelle
  imports Main "HOL-Library.Word"
begin

section \<open>UniDOS: the loader, the PSP builder, the interrupt hook and the driver\<close>

text \<open>
  A shallow embedding of \<^verbatim>\<open>src/main.c\<close>. Host memory (\<^verbatim>\<open>uint8_t memory[MEM_SIZE]\<close>)
  is a list of bytes, the Unicorn context is a record, and the calls into the C library
  and into Unicorn are functions on these values. Every \<^verbatim>\<open>exit\<close> and \<^verbatim>\<open>return\<close> of the
  source is a branch of the model.
\<close>

subsection \<open>Constants and basic types\<close>

unbundle bit_operations_syntax

type_synonym u8 = "8 word"
type_synonym u16 = "16 word"
type_synonym u32 = "32 word"
type_synonym memory = "u8 list"

text \<open>\<^verbatim>\<open>#define DOS_ADDR 0x100\<close> and \<^verbatim>\<open>#define MEM_SIZE 1 << 20\<close>.\<close>

definition DOS_ADDR :: nat where
  "DOS_ADDR = 0x100"

definition MEM_SIZE :: nat where
  "MEM_SIZE = 2 ^ 20"

text \<open>\<^verbatim>\<open>EXIT_FAILURE\<close> of \<^verbatim>\<open>stdlib.h\<close>.\<close>

definition EXIT_FAILURE :: int where
  "EXIT_FAILURE = 1"

text \<open>
  Modelled from the spec: the macro \<^verbatim>\<open>MK_FP\<close> comes from a header that is not among the
  sources. The spec resolves a (segment, offset) pair to \<open>segment * 16 + offset\<close>.
\<close>

definition MK_FP :: "int \<Rightarrow> int \<Rightarrow> int" where
  "MK_FP seg off = seg * 16 + off"

subsection \<open>The packed PSP structure\<close>

text \<open>
  The members of \<^verbatim>\<open>struct PSP\<close> in declaration order, each with the size of its element
  type and its element count. Under \<^verbatim>\<open>#pragma pack(push, 1)\<close> there is no padding: a
  member starts where the members before it end.
\<close>

datatype psp_field =
    CPMExit | FirstFreeSegment | Reserved1 | CPMCall5Compat | OldTSRAddress
  | OldBreakAddress | CriticalErrorHandlerAddress | CallerPSPSegment | JobFileTable
  | EnvironmentSegment | INT21SSSP | JobFileTableSize | JobFileTablePointer
  | PreviousPSP | Reserved2 | DOSVersion | Reserved3 | DOSFarCall | Reserved4
  | ExtendedFCB1 | FCB1 | FCB2 | CommandLineLength | CommandLine

definition PSP :: "(psp_field \<times> nat \<times> nat) list" where
  "PSP =
    [(CPMExit, 1, 2),
     (FirstFreeSegment, 2, 1),
     (Reserved1, 1, 1),
     (CPMCall5Compat, 1, 5),
     (OldTSRAddress, 4, 1),
     (OldBreakAddress, 4, 1),
     (CriticalErrorHandlerAddress, 4, 1),
     (CallerPSPSegment, 2, 1),
     (JobFileTable, 1, 20),
     (EnvironmentSegment, 2, 1),
     (INT21SSSP, 4, 1),
     (JobFileTableSize, 2, 1),
     (JobFileTablePointer, 4, 1),
     (PreviousPSP, 4, 1),
     (Reserved2, 4, 1),
     (DOSVersion, 2, 1),
     (Reserved3, 1, 14),
     (DOSFarCall, 1, 3),
     (Reserved4, 2, 1),
     (ExtendedFCB1, 1, 7),
     (FCB1, 1, 16),
     (FCB2, 1, 20),
     (CommandLineLength, 1, 1),
     (CommandLine, 1, 127)]"

fun member_offset :: "(psp_field \<times> nat \<times> nat) list \<Rightarrow> psp_field \<Rightarrow> nat" where
  "member_offset [] f = 0"
| "member_offset ((g, sz, n) # ms) f = (if g = f then 0 else sz * n + member_offset ms f)"

fun member_size :: "(psp_field \<times> nat \<times> nat) list \<Rightarrow> psp_field \<Rightarrow> nat" where
  "member_size [] f = 0"
| "member_size ((g, sz, n) # ms) f = (if g = f then sz * n else member_size ms f)"

fun struct_size :: "(psp_field \<times> nat \<times> nat) list \<Rightarrow> nat" where
  "struct_size [] = 0"
| "struct_size ((g, sz, n) # ms) = sz * n + struct_size ms"

definition offsetof :: "psp_field \<Rightarrow> nat" where
  "offsetof f = member_offset PSP f"

definition sizeof_member :: "psp_field \<Rightarrow> nat" where
  "sizeof_member f = member_size PSP f"

definition sizeof_PSP :: nat where
  "sizeof_PSP = struct_size PSP"

subsection \<open>Building the PSP\<close>

text \<open>
  The inner \<^verbatim>\<open>while (argv[i][j] && c < 0x7E)\<close> loop. An argument is the characters of a C
  string: the loop ends at the terminating NUL, which is the end of the list here, and
  would also end at a NUL inside it. \<open>cl\<close> is the index in \<open>memory\<close> of
  \<^verbatim>\<open>PSP->CommandLine[0]\<close>; \<open>c\<close> is the \<^verbatim>\<open>uint8_t\<close> counter.
\<close>

fun copy_arg :: "nat \<Rightarrow> string \<Rightarrow> memory \<times> u8 \<Rightarrow> memory \<times> u8" where
  "copy_arg cl [] (memory, c) = (memory, c)"
| "copy_arg cl (x # xs) (memory, c) =
     (if x \<noteq> CHR 0x00 \<and> c < 0x7E
      then copy_arg cl xs (memory[cl + unat c := of_char x], c + 1)
      else (memory, c))"

text \<open>
  The outer \<^verbatim>\<open>for (int i = 2; i < argc && c < 0x7E; i++)\<close> loop, over the arguments from
  \<^verbatim>\<open>argv[2]\<close> on.
\<close>

fun copy_args :: "nat \<Rightarrow> string list \<Rightarrow> memory \<times> u8 \<Rightarrow> memory \<times> u8" where
  "copy_args cl [] (memory, c) = (memory, c)"
| "copy_args cl (a # as) (memory, c) =
     (if c < 0x7E
      then copy_args cl as (copy_arg cl a (memory[cl + unat c := 0x20], c + 1))
      else (memory, c))"

text \<open>
  \<^verbatim>\<open>uint32_t abs = MK_FP(seg, 0)\<close> for the \<^verbatim>\<open>int16_t seg\<close>, as an index into \<open>memory\<close>.
\<close>

definition psp_abs :: "u16 \<Rightarrow> nat" where
  "psp_abs seg = unat (word_of_int (MK_FP (sint seg) 0) :: u32)"

text \<open>
  \<^verbatim>\<open>setup_psp(seg, memory, argc, argv)\<close>, with \<open>argc = length argv\<close>. The structure is
  overlaid on \<open>memory\<close> at \<open>abs\<close>; the C code has no defined behaviour when the overlay
  does not lie inside the buffer, and the model returns \<open>None\<close> there.
\<close>

definition setup_psp :: "u16 \<Rightarrow> memory \<Rightarrow> string list \<Rightarrow> memory option" where
  "setup_psp seg memory argv =
    (let abs_addr = psp_abs seg in
     if length memory < abs_addr + sizeof_PSP then None
     else
       let m1 = memory[abs_addr + offsetof CPMExit + 0 := 0xcd];
           m2 = m1[abs_addr + offsetof CPMExit + 1 := 0x20];
           m3 = m2[abs_addr + offsetof DOSFarCall + 0 := 0xcd];
           m4 = m3[abs_addr + offsetof DOSFarCall + 1 := 0x21];
           m5 = m4[abs_addr + offsetof DOSFarCall + 2 := 0xcb];
           m6 = m5[abs_addr + offsetof FCB1 + 0 := 0x01];
           m7 = m6[abs_addr + offsetof FCB1 + 1 := 0x20];
           (m8, c) = copy_args (abs_addr + offsetof CommandLine) (drop 2 argv) (m7, 0);
           m9 = m8[abs_addr + offsetof CommandLine + unat c := 0x0D];
           m10 = m9[abs_addr + offsetof CommandLineLength := c]
       in Some m10)"

text \<open>
  The command-line tail in the spec's words: the arguments after the program name and the
  image path, each preceded by one space, cut at 126 bytes.
\<close>

definition tail_spec :: "string list \<Rightarrow> string" where
  "tail_spec argv =
     take 126 (concat (map (\<lambda>a. CHR '' '' # takeWhile (\<lambda>x. x \<noteq> CHR 0x00) a) (drop 2 argv)))"


text \<open>\<open>put m cl w\<close>: the buffer \<open>m\<close> with the characters \<open>w\<close> stored from index \<open>cl\<close> on.\<close>

definition put :: "memory \<Rightarrow> nat \<Rightarrow> string \<Rightarrow> memory" where
  "put m cl w = take cl m @ map of_char w @ drop (cl + length w) m"

text \<open>\<open>psp_stubs a m\<close>: the buffer \<open>m\<close> with the seven fixed bytes of a PSP at \<open>a\<close>.\<close>

definition psp_stubs :: "nat \<Rightarrow> memory \<Rightarrow> memory" where
  "psp_stubs a m =
     m[a + offsetof CPMExit + 0 := 0xcd, a + offsetof CPMExit + 1 := 0x20,
       a + offsetof DOSFarCall + 0 := 0xcd, a + offsetof DOSFarCall + 1 := 0x21,
       a + offsetof DOSFarCall + 2 := 0xcb,
       a + offsetof FCB1 + 0 := 0x01, a + offsetof FCB1 + 1 := 0x20]"

subsection \<open>The Unicorn context\<close>

text \<open>
  The registers the program touches, the guest memory of the context (empty until a
  region is mapped), whether the interrupt hook is installed, and whether a stop of the
  run was requested. An \<^verbatim>\<open>uc_err\<close> is a number, 0 for \<^verbatim>\<open>UC_ERR_OK\<close>: the code only tests
  it with \<^verbatim>\<open>if (err)\<close>.
\<close>

datatype x86_reg =
    UC_X86_REG_IP | UC_X86_REG_AH | UC_X86_REG_SP
  | UC_X86_REG_CS | UC_X86_REG_DS | UC_X86_REG_ES | UC_X86_REG_SS

type_synonym uc_err = nat

record uc_engine =
  uc_regs :: "x86_reg \<Rightarrow> u16"
  uc_mem :: memory
  uc_hook_intr :: bool
  uc_stop :: bool

definition uc_reg_write :: "uc_engine \<Rightarrow> x86_reg \<Rightarrow> u16 \<Rightarrow> uc_engine" where
  "uc_reg_write uc r v = uc\<lparr>uc_regs := (uc_regs uc)(r := v)\<rparr>"

definition uc_reg_read :: "uc_engine \<Rightarrow> x86_reg \<Rightarrow> u16" where
  "uc_reg_read uc r = uc_regs uc r"

text \<open>A successful \<^verbatim>\<open>uc_mem_map(uc, 0, MEM_SIZE, UC_PROT_ALL)\<close>: the region \<open>fresh\<close> is the guest memory.\<close>

definition uc_mem_map :: "uc_engine \<Rightarrow> memory \<Rightarrow> uc_engine" where
  "uc_mem_map uc fresh = uc\<lparr>uc_mem := fresh\<rparr>"

text \<open>
  \<^verbatim>\<open>uc_mem_write(uc, address, bytes, len)\<close> copies \<open>len\<close> bytes into guest memory; when the
  range is not mapped it writes nothing (the caller ignores the error it returns).
\<close>

definition uc_mem_write :: "uc_engine \<Rightarrow> nat \<Rightarrow> memory \<Rightarrow> nat \<Rightarrow> uc_engine" where
  "uc_mem_write uc address bytes len =
     (if address + len \<le> length (uc_mem uc) \<and> len \<le> length bytes
      then uc\<lparr>uc_mem := take address (uc_mem uc) @ take len bytes @ drop (address + len) (uc_mem uc)\<rparr>
      else uc)"

definition uc_hook_add :: "uc_engine \<Rightarrow> uc_engine" where
  "uc_hook_add uc = uc\<lparr>uc_hook_intr := True\<rparr>"

subsection \<open>Output\<close>

text \<open>
  What the program prints, as a list of lines with their stream. A line with formatted
  parts keeps the values: \<open>Syntax prog\<close> is \<^verbatim>\<open>"Syntax: %s <COM>"\<close>, \<open>Perror s\<close> is
  \<^verbatim>\<open>perror(s)\<close>, \<open>Interrupt ip intno ah\<close> is the line of \<open>hook_intr\<close>, and \<open>EmuFailed err\<close>
  is the line printed when \<^verbatim>\<open>uc_emu_start\<close> returns an error.
\<close>

datatype stream = Stdout | Stderr

datatype line =
    Text string
  | Syntax string
  | Perror string
  | Interrupt u32 u32 u8
  | EmuFailed uc_err

type_synonym transcript = "(stream \<times> line) list"

definition usage :: "string \<Rightarrow> transcript" where
  "usage prog =
     [(Stdout, Text ''UniDOS for DOS emulation. Based on Unicorn engine (www.unicorn-engine.org)''),
      (Stdout, Syntax prog)]"

subsection \<open>Loading the image\<close>

text \<open>\<^verbatim>\<open>memset(s, c, n)\<close> and \<^verbatim>\<open>fread(ptr + off, len, 1, f)\<close> on a buffer that holds the range.\<close>

definition memset :: "memory \<Rightarrow> u8 \<Rightarrow> nat \<Rightarrow> memory" where
  "memset s c n = replicate n c @ drop n s"

definition fread :: "memory \<Rightarrow> nat \<Rightarrow> nat \<Rightarrow> u8 list \<Rightarrow> memory" where
  "fread ptr off len f = take off ptr @ take len f @ drop (off + len) ptr"

text \<open>
  The two ways \<open>load_com\<close> ends the process, under the names the spec gives them: the
  file cannot be opened, or its size is 0 or above \<open>0xff00\<close>.
\<close>

datatype load_error = ImageNotFound | ImageSizeInvalid

text \<open>
  \<^verbatim>\<open>load_com(uc, memory, fname)\<close>. \<open>fopen_rb\<close> gives the contents of the file a name opens, or
  \<open>None\<close> when \<^verbatim>\<open>fopen\<close> returns \<^verbatim>\<open>NULL\<close>; \<open>fsize\<close> is what \<^verbatim>\<open>ftell\<close> reports at the end of
  the file. The two error branches print, close the context and call
  \<^verbatim>\<open>exit(EXIT_FAILURE)\<close>: they yield the error, the output and the exit status. Otherwise
  the result is the context, the buffer and \<open>fsize\<close>.
\<close>

definition load_com ::
  "uc_engine \<Rightarrow> memory \<Rightarrow> (string \<Rightarrow> u8 list option) \<Rightarrow> string
     \<Rightarrow> (load_error \<times> transcript \<times> int) + (uc_engine \<times> memory \<times> nat)" where
  "load_com uc memory fopen_rb fname =
    (case fopen_rb fname of
       None \<Rightarrow> Inl (ImageNotFound, [(Stderr, Perror ''Error'')], EXIT_FAILURE)
     | Some f \<Rightarrow>
         let fsize = length f in
         if fsize = 0 \<or> fsize > 0xff00
         then Inl (ImageSizeInvalid, [(Stderr, Text ''Invalid file size'')], EXIT_FAILURE)
         else
           let memory1 = memset memory 0 MEM_SIZE;
               memory2 = fread memory1 DOS_ADDR fsize f;
               uc1 = uc_reg_write uc UC_X86_REG_SP 0xfffe;
               uc2 = uc_reg_write uc1 UC_X86_REG_CS 0;
               uc3 = uc_reg_write uc2 UC_X86_REG_DS 0;
               uc4 = uc_reg_write uc3 UC_X86_REG_ES 0;
               uc5 = uc_reg_write uc4 UC_X86_REG_SS 0
           in Inr (uc5, memory2, fsize))"

subsection \<open>The interrupt hook\<close>

text \<open>
  The state a callback acts on: the context and the output so far. The handlers
  \<^verbatim>\<open>int20\<close> and \<^verbatim>\<open>int21\<close> are not among the sources; \<open>hook_intr\<close> takes them as
  parameters, and what they keep of their own lives in the extension of the record.
  The \<^verbatim>\<open>user_data\<close> argument is unused and left out.

  \<^verbatim>\<open>r_ip\<close> is an automatic \<^verbatim>\<open>uint32_t\<close> that is never initialised, and
  \<^verbatim>\<open>uc_reg_read(uc, UC_X86_REG_IP, &r_ip)\<close> stores the 16 bits of the instruction pointer
  in it: on the little-endian host its low half is IP and its high half is whatever the
  variable held on entry. \<open>r_ip0\<close> is that content on entry. \<^verbatim>\<open>r_ah\<close> is a \<^verbatim>\<open>uint8_t\<close>
  and the read of AH fills it.
\<close>

record world =
  w_uc :: uc_engine
  w_out :: transcript

definition hook_intr ::
  "('a world_scheme \<Rightarrow> 'a world_scheme) \<Rightarrow> ('a world_scheme \<Rightarrow> 'a world_scheme)
     \<Rightarrow> u32 \<Rightarrow> 'a world_scheme \<Rightarrow> u32 \<Rightarrow> 'a world_scheme" where
  "hook_intr int20 int21 r_ip0 w intno =
    (let r_ip = (r_ip0 AND 0xFFFF0000) OR ucast (uc_reg_read (w_uc w) UC_X86_REG_IP);
         r_ah = ucast (uc_reg_read (w_uc w) UC_X86_REG_AH) :: u8
     in if intno = 0x21 then int21 w
        else if intno = 0x20 then int20 w
        else w\<lparr>w_out := w_out w @ [(Stdout, Interrupt r_ip intno r_ah)]\<rparr>)"

text \<open>
  Modelled from the spec: \<^verbatim>\<open>int20\<close> is declared in \<^verbatim>\<open>int20.h\<close>, which is not among the
  sources. The spec's process-termination handler (4.6) signals the driver that
  emulation must stop after the current instruction; it is the only path that brings
  emulation to a terminal state.
\<close>

definition int20 :: "'a world_scheme \<Rightarrow> 'a world_scheme" where
  "int20 w = w\<lparr>w_uc := (w_uc w)\<lparr>uc_stop := True\<rparr>\<rparr>"

text \<open>
  Modelled from the spec: \<^verbatim>\<open>int21\<close> is declared in \<^verbatim>\<open>int21.h\<close>, which is not among the
  sources. The spec's DOS API handler (4.5) reads the function selector from AH and
  branches on it. Process termination via the API has the effect of 4.6. Every other
  function, an unsupported one included, consumes registers and guest memory and writes
  its results into registers and flags, guest memory and the host console. The spec
  names no selector values and no argument registers: \<open>terminates\<close> tells the selectors
  of process termination, and \<open>service\<close> gives, for any other selector, the registers,
  the guest memory and the output the function leaves.
\<close>

definition int21 ::
  "(u8 \<Rightarrow> bool) \<Rightarrow> (u8 \<Rightarrow> 'a world_scheme \<Rightarrow> (x86_reg \<Rightarrow> u16) \<times> memory \<times> transcript)
     \<Rightarrow> 'a world_scheme \<Rightarrow> 'a world_scheme" where
  "int21 terminates service w =
    (let selector = ucast (uc_reg_read (w_uc w) UC_X86_REG_AH) :: u8
     in if terminates selector then int20 w
        else case service selector w of
               (regs, mem, msgs) \<Rightarrow>
                 w\<lparr>w_uc := (w_uc w)\<lparr>uc_regs := regs, uc_mem := mem\<rparr>, w_out := msgs\<rparr>)"

subsection \<open>The driver\<close>

text \<open>
  What \<open>main\<close> gets from outside: the result of \<^verbatim>\<open>uc_open\<close> and the context it creates,
  the result of \<^verbatim>\<open>uc_mem_map\<close> and the region it maps, the contents of the automatic
  array \<^verbatim>\<open>memory\<close> on entry, the files, and the error code the run of the guest ends
  with.
\<close>

record env =
  env_open :: uc_err
  env_uc :: uc_engine
  env_map :: uc_err
  env_fresh :: memory
  env_memory :: memory
  env_file :: "string \<Rightarrow> u8 list option"
  env_emu :: "uc_engine \<Rightarrow> uc_err"

text \<open>
  The outcome of a run of the program: the value \<open>main\<close> returns or passes to \<^verbatim>\<open>exit\<close>,
  the lines the driver itself prints, and the context \<^verbatim>\<open>uc_emu_start\<close> was called on
  (\<open>None\<close> when it never was).
\<close>

record outcome =
  exit_code :: int
  printed :: transcript
  emulated :: "uc_engine option"

text \<open>
  \<^verbatim>\<open>main(argc, argv)\<close>, with \<open>argc = length argv\<close>. With an empty \<open>argv\<close> the C code reads
  \<^verbatim>\<open>argv[1]\<close> outside the vector; the model has no outcome there, nor where \<open>setup_psp\<close>
  has none. \<^verbatim>\<open>int21_init\<close> sets up tables of the absent \<^verbatim>\<open>int21\<close> module and
  \<^verbatim>\<open>uc_close\<close> releases the context: neither shows in an outcome.
\<close>

definition main :: "env \<Rightarrow> string list \<Rightarrow> outcome option" where
  "main e argv =
    (case argv of
       [] \<Rightarrow> None
     | [prog] \<Rightarrow> Some \<lparr>exit_code = - 1, printed = usage prog, emulated = None\<rparr>
     | prog # fname # rest \<Rightarrow>
         if env_open e \<noteq> 0
         then Some \<lparr>exit_code = 1,
                    printed = [(Stderr, Text ''Cannot initialize unicorn'')],
                    emulated = None\<rparr>
         else if env_map e \<noteq> 0
         then Some \<lparr>exit_code = 0,
                    printed = [(Stderr, Text ''Failed to write emulation code to memory, quit!'')],
                    emulated = None\<rparr>
         else
           (case load_com (uc_mem_map (env_uc e) (env_fresh e)) (env_memory e) (env_file e) fname of
              Inl (error, msgs, status) \<Rightarrow>
                Some \<lparr>exit_code = status, printed = msgs, emulated = None\<rparr>
            | Inr (uc1, memory1, fsize) \<Rightarrow>
                (case setup_psp 0 memory1 argv of
                   None \<Rightarrow> None
                 | Some memory2 \<Rightarrow>
                     let uc2 = uc_mem_write uc1 0 memory2 (DOS_ADDR + fsize);
                         uc3 = uc_hook_add uc2;
                         err = env_emu e uc3
                     in Some \<lparr>exit_code = 0,
                              printed = (if err \<noteq> 0 then [(Stderr, EmuFailed err)] else []),
                              emulated = Some uc3\<rparr>)))"

subsection \<open>A concrete host\<close>

text \<open>
  A context with every register 0 and nothing mapped, and a host on which \<^verbatim>\<open>uc_open\<close> and
  \<^verbatim>\<open>uc_mem_map\<close> return the given codes, every file name opens to the given contents (or
  fails to open), the automatic array starts filled with \<open>0xFF\<close>, a fresh mapping is
  filled with 0 and the run of the guest ends without error. The instances of the
  theorems below are stated on it.
\<close>

definition uc_blank :: uc_engine where
  "uc_blank = \<lparr>uc_regs = (\<lambda>r. 0), uc_mem = [], uc_hook_intr = False, uc_stop = False\<rparr>"

definition host :: "uc_err \<Rightarrow> uc_err \<Rightarrow> u8 list option \<Rightarrow> env" where
  "host open_err map_err file =
     \<lparr>env_open = open_err, env_uc = uc_blank, env_map = map_err,
      env_fresh = replicate MEM_SIZE 0, env_memory = replicate MEM_SIZE 0xFF,
      env_file = (\<lambda>name. file), env_emu = (\<lambda>u. 0)\<rparr>"

section \<open>Properties\<close>

subsection \<open>The layout of the PSP\<close>

lemma offsetof_values:
  "offsetof CPMExit = 0" "offsetof FirstFreeSegment = 2" "offsetof DOSFarCall = 0x50"
  "offsetof FCB1 = 0x5C" "offsetof FCB2 = 0x6C" "offsetof CommandLineLength = 0x80"
  "offsetof CommandLine = 0x81"
  by (simp_all add: offsetof_def PSP_def)

lemma sizeof_PSP_value: "sizeof_PSP = 256"
  by (simp add: sizeof_PSP_def PSP_def)

subsection \<open>The loops of \<open>setup_psp\<close>\<close>

lemma put_Nil: "put m cl [] = m"
  by (simp add: put_def)

lemma length_put: "cl + length w \<le> length m \<Longrightarrow> length (put m cl w) = length m"
  by (simp add: put_def)

lemma put_snoc:
  assumes "cl + length w < length m"
  shows "(put m cl w)[cl + length w := of_char x] = put m cl (w @ [x])"
proof (rule nth_equalityI)
  show "length ((put m cl w)[cl + length w := of_char x]) = length (put m cl (w @ [x]))"
    using assms by (simp add: put_def)
next
  fix i assume "i < length ((put m cl w)[cl + length w := of_char x])"
  then show "(put m cl w)[cl + length w := of_char x] ! i = put m cl (w @ [x]) ! i"
    using assms by (auto simp: put_def nth_list_update nth_append min_def)
qed

lemma u8_of_nat_less: "n \<le> 126 \<Longrightarrow> ((of_nat n :: u8) < 0x7E) = (n < 126)"
  by (simp add: word_less_nat_alt unat_of_nat)

lemma u8_unat_of_nat: "n \<le> 126 \<Longrightarrow> unat (of_nat n :: u8) = n"
  by (simp add: unat_of_nat)

lemma take_take_append: "take n (take n xs @ ys) = take n (xs @ ys)"
  by (cases "n \<le> length xs") simp_all

lemma copy_arg_put:
  "length w \<le> 126 \<Longrightarrow> cl + 127 \<le> length m \<Longrightarrow>
   copy_arg cl a (put m cl w, of_nat (length w)) =
     (put m cl (take 126 (w @ takeWhile (\<lambda>x. x \<noteq> CHR 0x00) a)),
      of_nat (length (take 126 (w @ takeWhile (\<lambda>x. x \<noteq> CHR 0x00) a))))"
proof (induction a arbitrary: w)
  case Nil
  then show ?case by simp
next
  case (Cons x xs)
  show ?case
  proof (cases "x \<noteq> CHR 0x00 \<and> length w < 126")
    case True
    then have lt: "(of_nat (length w) :: u8) < 0x7E"
      using Cons.prems(1) by (simp add: u8_of_nat_less)
    have upd: "(put m cl w)[cl + unat (of_nat (length w) :: u8) := of_char x] = put m cl (w @ [x])"
      using Cons.prems True by (simp add: u8_unat_of_nat put_snoc)
    have "copy_arg cl (x # xs) (put m cl w, of_nat (length w)) =
          copy_arg cl xs (put m cl (w @ [x]), of_nat (length (w @ [x])))"
      using True lt upd by (simp add: add.commute)
    also have "\<dots> = (put m cl (take 126 ((w @ [x]) @ takeWhile (\<lambda>x. x \<noteq> CHR 0x00) xs)),
      of_nat (length (take 126 ((w @ [x]) @ takeWhile (\<lambda>x. x \<noteq> CHR 0x00) xs))))"
      using True Cons.prems by (intro Cons.IH) simp_all
    finally show ?thesis using True by simp
  next
    case False
    then show ?thesis using Cons.prems by (auto simp: u8_of_nat_less)
  qed
qed

lemma copy_args_put:
  "length w \<le> 126 \<Longrightarrow> cl + 127 \<le> length m \<Longrightarrow>
   copy_args cl as (put m cl w, of_nat (length w)) =
     (put m cl (take 126 (w @ concat (map (\<lambda>a. CHR '' '' # takeWhile (\<lambda>x. x \<noteq> CHR 0x00) a) as))),
      of_nat (length (take 126 (w @ concat (map (\<lambda>a. CHR '' '' # takeWhile (\<lambda>x. x \<noteq> CHR 0x00) a) as)))))"
proof (induction as arbitrary: w)
  case Nil
  then show ?case by simp
next
  case (Cons a as)
  let ?tw = "takeWhile (\<lambda>x. x \<noteq> CHR 0x00) a"
  let ?rest = "concat (map (\<lambda>a. CHR '' '' # takeWhile (\<lambda>x. x \<noteq> CHR 0x00) a) as)"
  show ?case
  proof (cases "length w < 126")
    case True
    then have lt: "(of_nat (length w) :: u8) < 0x7E"
      using Cons.prems(1) by (simp add: u8_of_nat_less)
    have upd: "(put m cl w)[cl + unat (of_nat (length w) :: u8) := 0x20] = put m cl (w @ [CHR '' ''])"
      using Cons.prems True put_snoc [of cl w m "CHR '' ''"] by (simp add: u8_unat_of_nat)
    let ?w1 = "take 126 ((w @ [CHR '' '']) @ ?tw)"
    have "copy_args cl (a # as) (put m cl w, of_nat (length w)) =
          copy_args cl as (copy_arg cl a (put m cl (w @ [CHR '' '']), of_nat (length (w @ [CHR '' '']))))"
      using lt upd by (simp add: add.commute)
    also have "\<dots> = copy_args cl as (put m cl ?w1, of_nat (length ?w1))"
      using True Cons.prems by (subst copy_arg_put) simp_all
    also have "\<dots> = (put m cl (take 126 (?w1 @ ?rest)), of_nat (length (take 126 (?w1 @ ?rest))))"
      using Cons.prems by (intro Cons.IH) simp_all
    finally have step: "copy_args cl (a # as) (put m cl w, of_nat (length w)) =
      (put m cl (take 126 (?w1 @ ?rest)), of_nat (length (take 126 (?w1 @ ?rest))))" .
    have "(w @ [CHR '' '']) @ ?tw @ ?rest =
          w @ concat (map (\<lambda>a. CHR '' '' # takeWhile (\<lambda>x. x \<noteq> CHR 0x00) a) (a # as))"
      by simp
    then have "take 126 (?w1 @ ?rest) =
          take 126 (w @ concat (map (\<lambda>a. CHR '' '' # takeWhile (\<lambda>x. x \<noteq> CHR 0x00) a) (a # as)))"
      by (simp only: take_take_append append_assoc)
    with step show ?thesis by (simp only:)
  next
    case False
    then show ?thesis using Cons.prems by (auto simp: u8_of_nat_less)
  qed
qed


lemma copy_args_from_start:
  assumes "cl + 127 \<le> length m"
  shows "copy_args cl (drop 2 argv) (m, 0) =
     (put m cl (tail_spec argv), of_nat (length (tail_spec argv)))"
  using copy_args_put [of "[]" cl m "drop 2 argv"] assms
  by (simp add: put_Nil tail_spec_def)

lemma length_tail_spec: "length (tail_spec argv) \<le> 126"
  by (simp add: tail_spec_def)

lemma update_two:
  "((A @ [a]) @ B @ d # D)[Suc (length A) + length B := r, length A := l] = A @ l # B @ r # D"
  by (simp add: list_update_append)

lemma tail_store:
  assumes "Suc k + length w < length m"
  shows "(put m (Suc k) w)[Suc k + length w := r, k := l] =
     take k m @ l # map of_char w @ r # drop (Suc (Suc k + length w)) m"
proof -
  have A: "take (Suc k) m = take k m @ [m ! k]"
    using assms by (simp add: take_Suc_conv_app_nth)
  have D: "drop (Suc k + length w) m = m ! (Suc k + length w) # drop (Suc (Suc k + length w)) m"
    using assms by (simp add: Cons_nth_drop_Suc)
  have len: "length (take k m) = k"
    using assms by simp
  show ?thesis
    unfolding put_def A D
    using update_two [of "take k m" "m ! k" "map of_char w" "m ! (Suc k + length w)"
        "drop (Suc (Suc k + length w)) m" r l]
    by (simp only: len length_map)
qed

subsection \<open>The buffer after \<open>setup_psp\<close>\<close>

lemma psp_abs_0: "psp_abs 0 = 0"
  by (simp add: psp_abs_def MK_FP_def)

lemma length_psp_stubs: "length (psp_stubs a m) = length m"
  by (simp add: psp_stubs_def)

lemma drop_psp_stubs: "a + offsetof FCB1 + 1 < k \<Longrightarrow> drop k (psp_stubs a m) = drop k m"
  by (simp add: psp_stubs_def offsetof_values)

lemma setup_psp_unfold:
  "setup_psp seg memory argv =
    (if length memory < psp_abs seg + sizeof_PSP then None
     else case copy_args (psp_abs seg + offsetof CommandLine) (drop 2 argv)
                 (psp_stubs (psp_abs seg) memory, 0) of
            (m8, c) \<Rightarrow>
              Some (m8[psp_abs seg + offsetof CommandLine + unat c := 0x0D,
                       psp_abs seg + offsetof CommandLineLength := c]))"
  by (simp add: setup_psp_def psp_stubs_def Let_def)

lemma framed_nth_length: "(P @ l # W @ r # D) ! length P = l"
  by simp

lemma framed_slice: "take (length W) (drop (Suc (length P)) (P @ l # W @ r # D)) = W"
  by simp

lemma framed_nth_end: "(P @ l # W @ r # D) ! (Suc (length P) + length W) = r"
  by (simp add: nth_append)

lemma framed_drop: "drop (Suc (Suc (length P) + length W)) (P @ l # W @ r # D) = D"
  by simp

lemma framed_nth_front: "i < length P \<Longrightarrow> (P @ l # W @ r # D) ! i = P ! i"
  by (simp add: nth_append)

text \<open>What \<open>setup_psp\<close> leaves in the buffer, read back.\<close>

lemma setup_psp_view:
  assumes "psp_abs seg + sizeof_PSP \<le> length memory"
  shows "\<exists>m. setup_psp seg memory argv = Some m
     \<and> length m = length memory
     \<and> m ! (psp_abs seg + offsetof CommandLineLength) = of_nat (length (tail_spec argv))
     \<and> take (length (tail_spec argv)) (drop (psp_abs seg + offsetof CommandLine) m) =
         map of_char (tail_spec argv)
     \<and> m ! (psp_abs seg + offsetof CommandLine + length (tail_spec argv)) = 0x0D
     \<and> drop (Suc (psp_abs seg + offsetof CommandLine + length (tail_spec argv))) m =
         drop (Suc (psp_abs seg + offsetof CommandLine + length (tail_spec argv))) memory
     \<and> (\<forall>i < psp_abs seg + offsetof CommandLineLength. m ! i = psp_stubs (psp_abs seg) memory ! i)"
proof -
  define CL where "CL = psp_abs seg + offsetof CommandLine"
  define LL where "LL = psp_abs seg + offsetof CommandLineLength"
  define m7 where "m7 = psp_stubs (psp_abs seg) memory"
  define w where "w = tail_spec argv"
  define P where "P = take LL m7"
  define W :: "u8 list" where "W = map of_char w"
  define D where "D = drop (Suc (Suc LL + length w)) m7"
  define l :: u8 where "l = of_nat (length w)"
  define m where "m = P @ l # W @ 0x0D # D"
  have CLv: "CL = Suc LL"
    by (simp add: CL_def LL_def offsetof_values)
  have fits: "LL + 128 \<le> length memory"
    using assms by (simp add: LL_def sizeof_PSP_value offsetof_values)
  have len7: "length m7 = length memory"
    by (simp add: m7_def length_psp_stubs)
  have wlen: "length w \<le> 126"
    by (simp add: w_def length_tail_spec)
  have un: "unat (of_nat (length w) :: u8) = length w"
    using wlen by (rule u8_unat_of_nat)
  have loop: "copy_args CL (drop 2 argv) (m7, 0) = (put m7 CL w, of_nat (length w))"
    unfolding w_def using fits len7 by (intro copy_args_from_start) (simp add: CLv)
  have store: "(put m7 (Suc LL) w)[Suc LL + length w := 0x0D, LL := l] = m"
    unfolding m_def P_def W_def D_def
    using fits len7 wlen by (intro tail_store) simp
  have "setup_psp seg memory argv = Some ((put m7 CL w)[CL + length w := 0x0D, LL := l])"
    using assms loop
    by (simp add: setup_psp_unfold CL_def [symmetric] LL_def [symmetric] m7_def [symmetric] un l_def)
  then have eq: "setup_psp seg memory argv = Some m"
    by (simp only: CLv store)
  have lenP: "length P = LL"
    using fits len7 by (simp add: P_def)
  have lenW: "length W = length w"
    by (simp add: W_def)
  have Dmem: "D = drop (Suc (CL + length w)) memory"
    unfolding D_def m7_def CLv LL_def
    by (rule drop_psp_stubs) (simp add: offsetof_values)
  have 1: "length m = length memory"
    using fits wlen by (simp add: m_def lenP lenW Dmem CLv)
  have 2: "m ! LL = l"
    using framed_nth_length [of P l W "0x0D" D] by (simp only: m_def lenP)
  have 3: "take (length w) (drop CL m) = W"
    using framed_slice [of W P l "0x0D" D] by (simp only: m_def lenP lenW CLv)
  have 4: "m ! (CL + length w) = 0x0D"
    using framed_nth_end [of P l W "0x0D" D] by (simp only: m_def lenP lenW CLv)
  have 5: "drop (Suc (CL + length w)) m = drop (Suc (CL + length w)) memory"
    using framed_drop [of P W l "0x0D" D] by (simp only: m_def lenP lenW CLv Dmem)
  have 6: "\<forall>i < LL. m ! i = m7 ! i"
    using fits len7 by (simp add: m_def framed_nth_front lenP) (simp add: P_def)
  show ?thesis
    using eq 1 2 3 4 5 6
    unfolding CL_def LL_def m7_def w_def l_def W_def
    by blast
qed

lemma psp_stubs_nth:
  assumes "a + sizeof_PSP \<le> length m"
  shows "psp_stubs a m ! (a + offsetof CPMExit) = 0xCD"
    and "psp_stubs a m ! (a + offsetof CPMExit + 1) = 0x20"
    and "psp_stubs a m ! (a + offsetof DOSFarCall) = 0xCD"
    and "psp_stubs a m ! (a + offsetof DOSFarCall + 1) = 0x21"
    and "psp_stubs a m ! (a + offsetof DOSFarCall + 2) = 0xCB"
    and "psp_stubs a m ! (a + offsetof FCB1) = 0x01"
    and "psp_stubs a m ! (a + offsetof FCB1 + 1) = 0x20"
  using assms
  by (simp_all add: psp_stubs_def offsetof_values sizeof_PSP_value nth_list_update)

lemma psp_stubs_frame:
  assumes "i \<noteq> a + offsetof CPMExit" "i \<noteq> a + offsetof CPMExit + 1"
    "i \<noteq> a + offsetof DOSFarCall" "i \<noteq> a + offsetof DOSFarCall + 1"
    "i \<noteq> a + offsetof DOSFarCall + 2" "i \<noteq> a + offsetof FCB1" "i \<noteq> a + offsetof FCB1 + 1"
  shows "psp_stubs a m ! i = m ! i"
  using assms by (simp add: psp_stubs_def)

lemma tail_spec_foo_bar: "tail_spec [prog, com, ''foo'', ''bar''] = '' foo bar''"
  by (simp add: tail_spec_def)

lemma fits_at_0: "psp_abs 0 + sizeof_PSP \<le> length (replicate MEM_SIZE (0::u8))"
  by (simp add: psp_abs_0 sizeof_PSP_value MEM_SIZE_def)

lemma tail_spec_long:
  "tail_spec [''unidos'', ''a.com'', replicate 200 CHR ''A''] = CHR '' '' # replicate 125 CHR ''A''"
  by (simp add: tail_spec_def)

subsection \<open>The loader and the driver\<close>

lemma load_com_ok:
  assumes "fopen_rb fname = Some f" "0 < length f" "length f \<le> 0xff00"
    and "length memory = MEM_SIZE"
  shows "load_com uc memory fopen_rb fname =
    Inr (uc\<lparr>uc_regs := (uc_regs uc)(UC_X86_REG_SP := 0xfffe, UC_X86_REG_CS := 0,
              UC_X86_REG_DS := 0, UC_X86_REG_ES := 0, UC_X86_REG_SS := 0)\<rparr>,
         replicate DOS_ADDR 0 @ f @ replicate (MEM_SIZE - DOS_ADDR - length f) 0,
         length f)"
proof -
  have zero: "memset memory 0 MEM_SIZE = replicate MEM_SIZE 0"
    using assms(4) by (simp add: memset_def)
  have copy: "fread (replicate MEM_SIZE 0) DOS_ADDR (length f) f =
      replicate DOS_ADDR 0 @ f @ replicate (MEM_SIZE - DOS_ADDR - length f) 0"
    using assms(3) by (simp add: fread_def DOS_ADDR_def MEM_SIZE_def)
  show ?thesis
    using assms(1,2,3)
    by (simp add: load_com_def Let_def zero copy uc_reg_write_def)
qed

lemma load_com_bad_size:
  assumes "fopen_rb fname = Some f" "length f = 0 \<or> length f > 0xff00"
  shows "load_com uc memory fopen_rb fname =
    Inl (ImageSizeInvalid, [(Stderr, Text ''Invalid file size'')], EXIT_FAILURE)"
  using assms by (auto simp: load_com_def Let_def)

lemma load_com_no_file:
  assumes "fopen_rb fname = None"
  shows "load_com uc memory fopen_rb fname =
    Inl (ImageNotFound, [(Stderr, Perror ''Error'')], EXIT_FAILURE)"
  using assms by (simp add: load_com_def)

lemma load_com_regs:
  assumes "load_com uc memory fopen_rb fname = Inr (uc', memory', fsize)"
  shows "uc_regs uc' = (uc_regs uc)(UC_X86_REG_SP := 0xfffe, UC_X86_REG_CS := 0,
              UC_X86_REG_DS := 0, UC_X86_REG_ES := 0, UC_X86_REG_SS := 0)"
  using assms
  by (auto simp: load_com_def Let_def uc_reg_write_def split: option.splits if_splits)

lemma main_usage: "main e [prog] = Some \<lparr>exit_code = - 1, printed = usage prog, emulated = None\<rparr>"
  by (simp add: main_def)

lemma main_open_failure:
  "env_open e \<noteq> 0 \<Longrightarrow> main e (prog # fname # rest) =
     Some \<lparr>exit_code = 1, printed = [(Stderr, Text ''Cannot initialize unicorn'')], emulated = None\<rparr>"
  by (simp add: main_def)

lemma main_map_failure:
  "env_open e = 0 \<Longrightarrow> env_map e \<noteq> 0 \<Longrightarrow> main e (prog # fname # rest) =
     Some \<lparr>exit_code = 0,
           printed = [(Stderr, Text ''Failed to write emulation code to memory, quit!'')],
           emulated = None\<rparr>"
  by (simp add: main_def)

lemma main_load_failure:
  assumes "env_open e = 0" "env_map e = 0"
    and "load_com (uc_mem_map (env_uc e) (env_fresh e)) (env_memory e) (env_file e) fname =
           Inl (err, msgs, status)"
  shows "main e (prog # fname # rest) = Some \<lparr>exit_code = status, printed = msgs, emulated = None\<rparr>"
  using assms by (simp add: main_def)

lemma main_success:
  assumes "env_open e = 0" "env_map e = 0"
    and "env_file e fname = Some f" "0 < length f" "length f \<le> 0xff00"
    and "length (env_memory e) = MEM_SIZE" "length (env_fresh e) = MEM_SIZE"
  shows "\<exists>m U. setup_psp 0 (replicate DOS_ADDR 0 @ f @ replicate (MEM_SIZE - DOS_ADDR - length f) 0)
               (prog # fname # rest) = Some m
     \<and> length m = MEM_SIZE
     \<and> main e (prog # fname # rest) =
         Some \<lparr>exit_code = 0,
               printed = (if env_emu e U \<noteq> 0 then [(Stderr, EmuFailed (env_emu e U))] else []),
               emulated = Some U\<rparr>
     \<and> uc_mem U = take (DOS_ADDR + length f) m @ drop (DOS_ADDR + length f) (env_fresh e)
     \<and> uc_regs U = (uc_regs (env_uc e))(UC_X86_REG_SP := 0xfffe, UC_X86_REG_CS := 0,
              UC_X86_REG_DS := 0, UC_X86_REG_ES := 0, UC_X86_REG_SS := 0)"
proof -
  define M where "M = replicate DOS_ADDR (0::u8) @ f @ replicate (MEM_SIZE - DOS_ADDR - length f) 0"
  define uc1 where "uc1 = (uc_mem_map (env_uc e) (env_fresh e))\<lparr>uc_regs :=
      (uc_regs (uc_mem_map (env_uc e) (env_fresh e)))(UC_X86_REG_SP := 0xfffe, UC_X86_REG_CS := 0,
              UC_X86_REG_DS := 0, UC_X86_REG_ES := 0, UC_X86_REG_SS := 0)\<rparr>"
  have lenM: "length M = MEM_SIZE"
    using assms(5) by (simp add: M_def DOS_ADDR_def MEM_SIZE_def)
  have load: "load_com (uc_mem_map (env_uc e) (env_fresh e)) (env_memory e) (env_file e) fname =
      Inr (uc1, M, length f)"
    unfolding uc1_def M_def using assms(3,4,5,6) by (rule load_com_ok)
  have "psp_abs 0 + sizeof_PSP \<le> length M"
    by (simp add: lenM psp_abs_0 sizeof_PSP_value MEM_SIZE_def)
  then obtain m where m: "setup_psp 0 M (prog # fname # rest) = Some m" and lenm: "length m = length M"
    using setup_psp_view [of 0 M "prog # fname # rest"] by blast
  define U where "U = uc_hook_add (uc_mem_write uc1 0 m (DOS_ADDR + length f))"
  have run: "main e (prog # fname # rest) =
      Some \<lparr>exit_code = 0,
            printed = (if env_emu e U \<noteq> 0 then [(Stderr, EmuFailed (env_emu e U))] else []),
            emulated = Some U\<rparr>"
    using assms(1,2) by (simp add: main_def load m Let_def U_def)
  have mem1: "uc_mem uc1 = env_fresh e"
    by (simp add: uc1_def uc_mem_map_def)
  have bound: "DOS_ADDR + length f \<le> MEM_SIZE"
    using assms(5) by (simp add: DOS_ADDR_def MEM_SIZE_def)
  have memU: "uc_mem U = take (DOS_ADDR + length f) m @ drop (DOS_ADDR + length f) (env_fresh e)"
    using bound assms(7) by (simp add: U_def uc_hook_add_def uc_mem_write_def mem1 lenm lenM)
  have regU: "uc_regs U = (uc_regs (env_uc e))(UC_X86_REG_SP := 0xfffe, UC_X86_REG_CS := 0,
              UC_X86_REG_DS := 0, UC_X86_REG_ES := 0, UC_X86_REG_SS := 0)"
    by (simp add: U_def uc_hook_add_def uc_mem_write_def uc1_def uc_mem_map_def)
  have lenm': "length m = MEM_SIZE"
    using lenm lenM by simp
  have "setup_psp 0 M (prog # fname # rest) = Some m \<and> length m = MEM_SIZE
     \<and> main e (prog # fname # rest) =
         Some \<lparr>exit_code = 0,
               printed = (if env_emu e U \<noteq> 0 then [(Stderr, EmuFailed (env_emu e U))] else []),
               emulated = Some U\<rparr>
     \<and> uc_mem U = take (DOS_ADDR + length f) m @ drop (DOS_ADDR + length f) (env_fresh e)
     \<and> uc_regs U = (uc_regs (env_uc e))(UC_X86_REG_SP := 0xfffe, UC_X86_REG_CS := 0,
              UC_X86_REG_DS := 0, UC_X86_REG_ES := 0, UC_X86_REG_SS := 0)"
    using m lenm' run memU regU by (intro conjI)
  then show ?thesis
    unfolding M_def by (intro exI)
qed

lemma image_zero_front:
  "i < DOS_ADDR \<Longrightarrow> (replicate DOS_ADDR (0::u8) @ f @ replicate n 0) ! i = 0"
  by (simp add: nth_append)

lemma guest_psp_zero:
  assumes "env_open e = 0" "env_map e = 0"
    and "env_file e fname = Some f" "0 < length f" "length f \<le> 0xff00"
    and "length (env_memory e) = MEM_SIZE" "length (env_fresh e) = MEM_SIZE"
    and "i < offsetof CommandLineLength"
    and "i \<noteq> offsetof CPMExit" "i \<noteq> offsetof CPMExit + 1"
    and "i \<noteq> offsetof DOSFarCall" "i \<noteq> offsetof DOSFarCall + 1" "i \<noteq> offsetof DOSFarCall + 2"
    and "i \<noteq> offsetof FCB1" "i \<noteq> offsetof FCB1 + 1"
  shows "\<exists>r U. main e (prog # fname # rest) = Some r \<and> emulated r = Some U \<and> uc_mem U ! i = 0"
proof -
  define M where "M = replicate DOS_ADDR (0::u8) @ f @ replicate (MEM_SIZE - DOS_ADDR - length f) 0"
  obtain m U where m: "setup_psp 0 M (prog # fname # rest) = Some m"
    and lenm: "length m = MEM_SIZE"
    and run: "main e (prog # fname # rest) =
         Some \<lparr>exit_code = 0,
               printed = (if env_emu e U \<noteq> 0 then [(Stderr, EmuFailed (env_emu e U))] else []),
               emulated = Some U\<rparr>"
    and memU: "uc_mem U = take (DOS_ADDR + length f) m @ drop (DOS_ADDR + length f) (env_fresh e)"
    using main_success [OF assms(1-7), of prog rest] unfolding M_def by blast
  have lenM: "length M = MEM_SIZE"
    using assms(5) by (simp add: M_def DOS_ADDR_def MEM_SIZE_def)
  have "psp_abs 0 + sizeof_PSP \<le> length M"
    by (simp add: lenM psp_abs_0 sizeof_PSP_value MEM_SIZE_def)
  then have front: "\<forall>j < psp_abs 0 + offsetof CommandLineLength. m ! j = psp_stubs (psp_abs 0) M ! j"
    using setup_psp_view [of 0 M "prog # fname # rest"] m by auto
  have i128: "i < 128"
    using assms(8) by (simp add: offsetof_values)
  have "uc_mem U ! i = m ! i"
    using i128 lenm by (simp add: memU nth_append DOS_ADDR_def MEM_SIZE_def)
  also have "\<dots> = psp_stubs 0 M ! i"
    using front assms(8) by (simp add: psp_abs_0)
  also have "\<dots> = M ! i"
    using assms(9-15) by (intro psp_stubs_frame) simp_all
  also have "\<dots> = 0"
    unfolding M_def using i128 by (intro image_zero_front) (simp add: DOS_ADDR_def)
  finally have "uc_mem U ! i = 0" .
  with run show ?thesis
    by simp
qed

subsection \<open>The PSP: layout, fixed bytes and command line\<close>

text \<open>
  C6. The packed structure occupies exactly 256 bytes. The termination trampoline
  (\<open>CPMExit\<close>) is at offset 0, the free-segment pointer at offset 2, the API-call trampoline
  (\<open>DOSFarCall\<close>, 3 bytes) at offset \<open>0x50\<close>, the two file-control-block slots at \<open>0x5C\<close>
  (16 bytes) and \<open>0x6C\<close> (20 bytes), the 1-byte length prefix of the command line at
  \<open>0x80\<close>, and the 127 bytes of its text from \<open>0x81\<close> to the end of the record.
\<close>

theorem PSP_layout:
  "sizeof_PSP = 256
   \<and> offsetof CPMExit = 0 \<and> sizeof_member CPMExit = 2
   \<and> offsetof FirstFreeSegment = 2 \<and> sizeof_member FirstFreeSegment = 2
   \<and> offsetof DOSFarCall = 0x50 \<and> sizeof_member DOSFarCall = 3
   \<and> offsetof FCB1 = 0x5C \<and> sizeof_member FCB1 = 16
   \<and> offsetof FCB2 = 0x6C \<and> sizeof_member FCB2 = 20
   \<and> offsetof CommandLineLength = 0x80 \<and> sizeof_member CommandLineLength = 1
   \<and> offsetof CommandLine = 0x81 \<and> sizeof_member CommandLine = 127
   \<and> offsetof CommandLine + sizeof_member CommandLine = sizeof_PSP"
  by (simp add: offsetof_def sizeof_member_def sizeof_PSP_def PSP_def)

text \<open>
  C5. For every segment, buffer that holds the PSP and argument list, the PSP that
  \<open>setup_psp\<close> builds has the bytes \<open>0xCD 0x20\<close> (INT 20h) at offset 0, the bytes
  \<open>0xCD 0x21 0xCB\<close> (INT 21h, RETF) at the offset \<open>0x50\<close> of the API-call trampoline, and
  the bytes \<open>0x01 0x20\<close> at the start of the first file-control-block slot.
\<close>

theorem setup_psp_fixed_bytes:
  assumes "psp_abs seg + sizeof_PSP \<le> length memory"
  shows "\<exists>m. setup_psp seg memory argv = Some m
     \<and> offsetof CPMExit = 0
     \<and> m ! (psp_abs seg + offsetof CPMExit) = 0xCD
     \<and> m ! (psp_abs seg + offsetof CPMExit + 1) = 0x20
     \<and> offsetof DOSFarCall = 0x50
     \<and> m ! (psp_abs seg + offsetof DOSFarCall) = 0xCD
     \<and> m ! (psp_abs seg + offsetof DOSFarCall + 1) = 0x21
     \<and> m ! (psp_abs seg + offsetof DOSFarCall + 2) = 0xCB
     \<and> offsetof FCB1 = 0x5C
     \<and> m ! (psp_abs seg + offsetof FCB1) = 0x01
     \<and> m ! (psp_abs seg + offsetof FCB1 + 1) = 0x20"
proof -
  obtain m where m: "setup_psp seg memory argv = Some m"
    and front: "\<forall>i < psp_abs seg + offsetof CommandLineLength. m ! i = psp_stubs (psp_abs seg) memory ! i"
    using setup_psp_view [OF assms, of argv] by blast
  have "m ! (psp_abs seg + offsetof CPMExit) = 0xCD"
       "m ! (psp_abs seg + offsetof CPMExit + 1) = 0x20"
       "m ! (psp_abs seg + offsetof DOSFarCall) = 0xCD"
       "m ! (psp_abs seg + offsetof DOSFarCall + 1) = 0x21"
       "m ! (psp_abs seg + offsetof DOSFarCall + 2) = 0xCB"
       "m ! (psp_abs seg + offsetof FCB1) = 0x01"
       "m ! (psp_abs seg + offsetof FCB1 + 1) = 0x20"
    using front psp_stubs_nth [OF assms] by (simp_all add: offsetof_values)
  with m show ?thesis
    by (simp add: offsetof_values)
qed

theorem setup_psp_fixed_bytes_witness:
  "psp_abs 0 + sizeof_PSP \<le> length (replicate MEM_SIZE (0::u8))
   \<and> (\<exists>m. setup_psp 0 (replicate MEM_SIZE 0) [''unidos'', ''a.com''] = Some m
     \<and> m ! (psp_abs 0 + offsetof CPMExit) = 0xCD
     \<and> m ! (psp_abs 0 + offsetof CPMExit + 1) = 0x20
     \<and> m ! (psp_abs 0 + offsetof DOSFarCall) = 0xCD
     \<and> m ! (psp_abs 0 + offsetof DOSFarCall + 1) = 0x21
     \<and> m ! (psp_abs 0 + offsetof DOSFarCall + 2) = 0xCB
     \<and> m ! (psp_abs 0 + offsetof FCB1) = 0x01
     \<and> m ! (psp_abs 0 + offsetof FCB1 + 1) = 0x20)"
  using fits_at_0 setup_psp_fixed_bytes [OF fits_at_0, of "[''unidos'', ''a.com'']"]
  by blast

text \<open>
  C3. For every argument list, \<open>setup_psp\<close> succeeds and keeps the size of the buffer;
  the length-prefix byte is the number of content bytes in the command-line tail; that
  number is at most 126; the content is the first 126 bytes of the arguments from
  \<^verbatim>\<open>argv[2]\<close> on, each preceded by a space (longer input is cut, not refused); the byte
  right after the content is the carriage return \<open>0x0D\<close>; and every byte after the
  carriage return, in the 127-byte field and beyond it, is as it was.
\<close>

theorem setup_psp_command_line:
  assumes "psp_abs seg + sizeof_PSP \<le> length memory"
  shows "\<exists>m. setup_psp seg memory argv = Some m
     \<and> length m = length memory
     \<and> unat (m ! (psp_abs seg + offsetof CommandLineLength)) = length (tail_spec argv)
     \<and> length (tail_spec argv) \<le> 126
     \<and> take (length (tail_spec argv)) (drop (psp_abs seg + offsetof CommandLine) m) =
         map of_char (tail_spec argv)
     \<and> m ! (psp_abs seg + offsetof CommandLine + length (tail_spec argv)) = 0x0D
     \<and> drop (Suc (psp_abs seg + offsetof CommandLine + length (tail_spec argv))) m =
         drop (Suc (psp_abs seg + offsetof CommandLine + length (tail_spec argv))) memory"
proof -
  have "unat (of_nat (length (tail_spec argv)) :: u8) = length (tail_spec argv)"
    using length_tail_spec by (rule u8_unat_of_nat)
  then show ?thesis
    using setup_psp_view [OF assms, of argv] length_tail_spec [of argv] by auto
qed

theorem setup_psp_command_line_witness:
  "psp_abs 0 + sizeof_PSP \<le> length (replicate MEM_SIZE (0::u8))
   \<and> (\<exists>m. setup_psp 0 (replicate MEM_SIZE 0) [''unidos'', ''a.com'', replicate 200 CHR ''A''] = Some m
     \<and> unat (m ! (psp_abs 0 + offsetof CommandLineLength)) = 126
     \<and> take 126 (drop (psp_abs 0 + offsetof CommandLine) m) =
         map of_char (CHR '' '' # replicate 125 CHR ''A'')
     \<and> m ! (psp_abs 0 + offsetof CommandLine + 126) = 0x0D)"
  using fits_at_0
    setup_psp_command_line [OF fits_at_0, of "[''unidos'', ''a.com'', replicate 200 CHR ''A'']"]
  by (auto simp: tail_spec_long)

text \<open>
  C4. With the argument vector (program name, image path, \<open>foo\<close>, \<open>bar\<close>), the content of
  the command-line tail is the 8 bytes \<open>'' foo bar''\<close>, the length-prefix byte is 8, and
  the carriage return follows the content.
\<close>

theorem setup_psp_foo_bar:
  assumes "psp_abs seg + sizeof_PSP \<le> length memory"
  shows "\<exists>m. setup_psp seg memory [prog, com, ''foo'', ''bar''] = Some m
     \<and> m ! (psp_abs seg + offsetof CommandLineLength) = 8
     \<and> take 8 (drop (psp_abs seg + offsetof CommandLine) m) = map of_char '' foo bar''
     \<and> m ! (psp_abs seg + offsetof CommandLine + 8) = 0x0D"
proof -
  let ?argv = "[prog, com, ''foo'', ''bar'']"
  have ts: "tail_spec ?argv = '' foo bar''"
    by (rule tail_spec_foo_bar)
  have len: "length (tail_spec ?argv) = 8"
    unfolding ts by simp
  have len': "length '' foo bar'' = 8"
    by simp
  obtain m where m: "setup_psp seg memory ?argv = Some m"
    and l: "m ! (psp_abs seg + offsetof CommandLineLength) = of_nat (length (tail_spec ?argv))"
    and c: "take (length (tail_spec ?argv)) (drop (psp_abs seg + offsetof CommandLine) m) =
             map of_char (tail_spec ?argv)"
    and r: "m ! (psp_abs seg + offsetof CommandLine + length (tail_spec ?argv)) = 0x0D"
    using setup_psp_view [OF assms, of ?argv] by blast
  from l have "m ! (psp_abs seg + offsetof CommandLineLength) = 8"
    unfolding len by simp
  moreover from c have "take 8 (drop (psp_abs seg + offsetof CommandLine) m) = map of_char '' foo bar''"
    unfolding ts len' .
  moreover from r have "m ! (psp_abs seg + offsetof CommandLine + 8) = 0x0D"
    unfolding len .
  ultimately show ?thesis
    using m by blast
qed

theorem setup_psp_foo_bar_witness:
  "psp_abs 0 + sizeof_PSP \<le> length (replicate MEM_SIZE (0::u8))
   \<and> (\<exists>m. setup_psp 0 (replicate MEM_SIZE 0) [''unidos'', ''a.com'', ''foo'', ''bar''] = Some m
     \<and> m ! (psp_abs 0 + offsetof CommandLineLength) = 8
     \<and> take 8 (drop (psp_abs 0 + offsetof CommandLine) m) = map of_char '' foo bar''
     \<and> m ! (psp_abs 0 + offsetof CommandLine + 8) = 0x0D)"
  using fits_at_0 setup_psp_foo_bar [OF fits_at_0, of "''unidos''" "''a.com''"]
  by blast

lemma host_simps:
  "env_open (host a b file) = a" "env_map (host a b file) = b"
  "env_file (host a b file) name = file" "env_uc (host a b file) = uc_blank"
  "length (env_memory (host a b file)) = MEM_SIZE" "length (env_fresh (host a b file)) = MEM_SIZE"
  "env_memory (host a b file) = replicate MEM_SIZE 0xFF"
  "env_fresh (host a b file) = replicate MEM_SIZE 0"
  "env_emu (host a b file) u = 0"
  by (simp_all add: host_def)

subsection \<open>The loader\<close>

text \<open>
  C1. For every image whose size \<open>s\<close> satisfies \<open>0 < s \<le> 0xFF00\<close>, whatever the buffer
  of \<open>MEM_SIZE\<close> bytes held before, \<open>load_com\<close> succeeds and returns \<open>s\<close>; the buffer it
  leaves is \<open>0x100\<close> zero bytes, then the \<open>s\<close> bytes of the file, then zero bytes up to
  \<open>MEM_SIZE\<close>: the file sits at absolute offset \<open>0x100\<close> and every other byte is zero.
\<close>

theorem load_com_image:
  assumes "fopen_rb fname = Some f" "0 < length f" "length f \<le> 0xFF00"
    and "length memory = MEM_SIZE"
  shows "\<exists>uc' memory'. load_com uc memory fopen_rb fname = Inr (uc', memory', length f)
     \<and> memory' = replicate DOS_ADDR 0 @ f @ replicate (MEM_SIZE - DOS_ADDR - length f) 0
     \<and> DOS_ADDR = 0x100
     \<and> length memory' = MEM_SIZE
     \<and> take (length f) (drop DOS_ADDR memory') = f"
proof -
  let ?M = "replicate DOS_ADDR (0::u8) @ f @ replicate (MEM_SIZE - DOS_ADDR - length f) 0"
  have "length ?M = MEM_SIZE"
    using assms(3) by (simp add: DOS_ADDR_def MEM_SIZE_def)
  moreover have "take (length f) (drop DOS_ADDR ?M) = f"
    by simp
  ultimately show ?thesis
    using load_com_ok [of fopen_rb fname f memory uc] assms by (simp add: DOS_ADDR_def)
qed

theorem load_com_image_witness:
  "(\<lambda>name. Some [0xCD, 0x20 :: u8]) ''a.com'' = Some [0xCD, 0x20]
   \<and> 0 < length [0xCD, 0x20 :: u8] \<and> length [0xCD, 0x20 :: u8] \<le> 0xFF00
   \<and> length (replicate MEM_SIZE (0xFF :: u8)) = MEM_SIZE
   \<and> (\<exists>uc' memory'.
         load_com uc_blank (replicate MEM_SIZE 0xFF) (\<lambda>name. Some [0xCD, 0x20]) ''a.com'' =
           Inr (uc', memory', length [0xCD, 0x20 :: u8])
       \<and> memory' = replicate DOS_ADDR 0 @ [0xCD, 0x20] @
           replicate (MEM_SIZE - DOS_ADDR - length [0xCD, 0x20 :: u8]) 0)"
proof -
  have h1: "(\<lambda>name. Some [0xCD, 0x20 :: u8]) ''a.com'' = Some [0xCD, 0x20]"
    by simp
  have h2: "0 < length [0xCD, 0x20 :: u8]"
    by simp
  have h3: "length [0xCD, 0x20 :: u8] \<le> 0xFF00"
    by simp
  have h4: "length (replicate MEM_SIZE (0xFF :: u8)) = MEM_SIZE"
    by simp
  show ?thesis
    using h1 h2 h3 h4
      load_com_image [of "\<lambda>name. Some [0xCD, 0x20]" "''a.com''" "[0xCD, 0x20]"
        "replicate MEM_SIZE 0xFF" uc_blank]
    by blast
qed

text \<open>
  C9. Whenever \<open>load_com\<close> succeeds, the context it returns has the stack pointer at
  \<open>0xFFFE\<close> and the four segment registers CS, DS, ES and SS at 0.
\<close>

theorem load_com_registers:
  assumes "load_com uc memory fopen_rb fname = Inr (uc', memory', fsize)"
  shows "uc_reg_read uc' UC_X86_REG_SP = 0xFFFE
     \<and> uc_reg_read uc' UC_X86_REG_CS = 0
     \<and> uc_reg_read uc' UC_X86_REG_DS = 0
     \<and> uc_reg_read uc' UC_X86_REG_ES = 0
     \<and> uc_reg_read uc' UC_X86_REG_SS = 0"
  using load_com_regs [OF assms] by (simp add: uc_reg_read_def)

theorem load_com_registers_witness:
  "load_com uc_blank (replicate MEM_SIZE 0xFF) (\<lambda>name. Some [0xCD, 0x20]) ''a.com'' =
     Inr (uc_blank\<lparr>uc_regs := (uc_regs uc_blank)(UC_X86_REG_SP := 0xfffe, UC_X86_REG_CS := 0,
              UC_X86_REG_DS := 0, UC_X86_REG_ES := 0, UC_X86_REG_SS := 0)\<rparr>,
          replicate DOS_ADDR 0 @ [0xCD, 0x20] @ replicate (MEM_SIZE - DOS_ADDR - length [0xCD, 0x20 :: u8]) 0,
          length [0xCD, 0x20 :: u8])
   \<and> uc_reg_read (uc_blank\<lparr>uc_regs := (uc_regs uc_blank)(UC_X86_REG_SP := 0xfffe, UC_X86_REG_CS := 0,
              UC_X86_REG_DS := 0, UC_X86_REG_ES := 0, UC_X86_REG_SS := 0)\<rparr>) UC_X86_REG_SP = 0xFFFE
   \<and> uc_reg_read (uc_blank\<lparr>uc_regs := (uc_regs uc_blank)(UC_X86_REG_SP := 0xfffe, UC_X86_REG_CS := 0,
              UC_X86_REG_DS := 0, UC_X86_REG_ES := 0, UC_X86_REG_SS := 0)\<rparr>) UC_X86_REG_SS = 0"
proof -
  have h: "load_com uc_blank (replicate MEM_SIZE 0xFF) (\<lambda>name. Some [0xCD, 0x20]) ''a.com'' =
     Inr (uc_blank\<lparr>uc_regs := (uc_regs uc_blank)(UC_X86_REG_SP := 0xfffe, UC_X86_REG_CS := 0,
              UC_X86_REG_DS := 0, UC_X86_REG_ES := 0, UC_X86_REG_SS := 0)\<rparr>,
          replicate DOS_ADDR 0 @ [0xCD, 0x20] @ replicate (MEM_SIZE - DOS_ADDR - length [0xCD, 0x20 :: u8]) 0,
          length [0xCD, 0x20 :: u8])"
    using load_com_ok [of "\<lambda>name. Some [0xCD, 0x20]" "''a.com''" "[0xCD, 0x20]"
        "replicate MEM_SIZE 0xFF" uc_blank]
    by simp
  show ?thesis
    using h load_com_registers [OF h] by blast
qed

text \<open>
  C2. When the file opens and its size is 0 or greater than \<open>0xFF00\<close>, \<open>load_com\<close> ends
  with the \<open>ImageSizeInvalid\<close> error, the line \<open>Invalid file size\<close> on standard error and
  the exit status \<^verbatim>\<open>EXIT_FAILURE\<close>; the program then ends with that status and that line,
  and \<^verbatim>\<open>uc_emu_start\<close> is never called.
\<close>

theorem load_com_size_invalid:
  assumes "env_open e = 0" "env_map e = 0"
    and "env_file e fname = Some f"
    and "length f = 0 \<or> length f > 0xFF00"
  shows "load_com uc memory (env_file e) fname =
       Inl (ImageSizeInvalid, [(Stderr, Text ''Invalid file size'')], EXIT_FAILURE)
     \<and> main e (prog # fname # rest) =
       Some \<lparr>exit_code = EXIT_FAILURE,
             printed = [(Stderr, Text ''Invalid file size'')],
             emulated = None\<rparr>
     \<and> EXIT_FAILURE \<noteq> 0"
proof -
  have bad: "load_com u m (env_file e) fname =
       Inl (ImageSizeInvalid, [(Stderr, Text ''Invalid file size'')], EXIT_FAILURE)" for u m
    using load_com_bad_size [of "env_file e" fname f u m] assms(3,4) by simp
  show ?thesis
    using bad main_load_failure [of e fname ImageSizeInvalid
        "[(Stderr, Text ''Invalid file size'')]" EXIT_FAILURE prog rest] assms(1,2)
    by (simp add: EXIT_FAILURE_def)
qed

theorem load_com_size_invalid_witness:
  "env_open (host 0 0 (Some [])) = 0 \<and> env_map (host 0 0 (Some [])) = 0
   \<and> env_file (host 0 0 (Some [])) ''a.com'' = Some []
   \<and> length ([] :: u8 list) = 0
   \<and> main (host 0 0 (Some [])) [''unidos'', ''a.com''] =
       Some \<lparr>exit_code = EXIT_FAILURE,
             printed = [(Stderr, Text ''Invalid file size'')],
             emulated = None\<rparr>
   \<and> length (replicate 0xFF01 (0::u8)) > 0xFF00
   \<and> main (host 0 0 (Some (replicate 0xFF01 0))) [''unidos'', ''a.com''] =
       Some \<lparr>exit_code = EXIT_FAILURE,
             printed = [(Stderr, Text ''Invalid file size'')],
             emulated = None\<rparr>"
proof -
  have a: "length ([] :: u8 list) = 0 \<or> length ([] :: u8 list) > 0xFF00"
    by simp
  have b: "length (replicate 0xFF01 (0::u8)) = 0 \<or> length (replicate 0xFF01 (0::u8)) > 0xFF00"
    by simp
  show ?thesis
    using a b
      load_com_size_invalid [where e = "host 0 0 (Some [])" and fname = "''a.com''"
        and f = "[]" and uc = uc_blank and memory = "[]" and prog = "''unidos''" and rest = "[]"]
      load_com_size_invalid [where e = "host 0 0 (Some (replicate 0xFF01 0))"
        and fname = "''a.com''" and f = "replicate 0xFF01 0" and uc = uc_blank
        and memory = "[]" and prog = "''unidos''" and rest = "[]"]
    by (simp add: host_simps)
qed

subsection \<open>The interrupt hook\<close>

text \<open>
  C7. For every vector other than \<open>0x20\<close> and \<open>0x21\<close>, whatever the handlers are,
  \<open>hook_intr\<close> only appends one line to standard output, with \<^verbatim>\<open>r_ip\<close> (IP in its low
  half), the vector and AH: the context is untouched, no handler runs and no stop is
  requested. The hook never requests a stop itself: on every vector and for all handlers,
  a stop request that is present after the hook and was not before was made by the
  handler the hook called. With the handlers of the spec, emulation ends only through the
  process-termination handler: a new stop request means that the hook did exactly what
  \<open>int20\<close> does, reached by vector \<open>0x20\<close> or by the API function of vector \<open>0x21\<close> that is
  process termination; no other function of the API and no other vector ends emulation.
\<close>

theorem hook_intr_dispatch:
  "(intno \<noteq> 0x20 \<and> intno \<noteq> 0x21 \<longrightarrow>
      hook_intr h20 h21 r_ip0 w intno =
        w\<lparr>w_out := w_out w @
            [(Stdout, Interrupt ((r_ip0 AND 0xFFFF0000) OR ucast (uc_reg_read (w_uc w) UC_X86_REG_IP))
                        intno (ucast (uc_reg_read (w_uc w) UC_X86_REG_AH)))]\<rparr>
      \<and> w_uc (hook_intr h20 h21 r_ip0 w intno) = w_uc w)
   \<and> (uc_stop (w_uc (hook_intr h20 h21 r_ip0 w intno)) \<and> \<not> uc_stop (w_uc w) \<longrightarrow>
        intno = 0x20 \<and> uc_stop (w_uc (h20 w)) \<or> intno = 0x21 \<and> uc_stop (w_uc (h21 w)))
   \<and> (uc_stop (w_uc (hook_intr int20 (int21 terminates service) r_ip0 w intno))
        \<and> \<not> uc_stop (w_uc w) \<longrightarrow>
        hook_intr int20 (int21 terminates service) r_ip0 w intno = int20 w
        \<and> (intno = 0x20
            \<or> intno = 0x21 \<and> terminates (ucast (uc_reg_read (w_uc w) UC_X86_REG_AH))))"
proof (intro conjI impI)
  assume "intno \<noteq> 0x20 \<and> intno \<noteq> 0x21"
  then show "hook_intr h20 h21 r_ip0 w intno =
        w\<lparr>w_out := w_out w @
            [(Stdout, Interrupt ((r_ip0 AND 0xFFFF0000) OR ucast (uc_reg_read (w_uc w) UC_X86_REG_IP))
                        intno (ucast (uc_reg_read (w_uc w) UC_X86_REG_AH)))]\<rparr>"
    by (simp add: hook_intr_def Let_def)
next
  assume "intno \<noteq> 0x20 \<and> intno \<noteq> 0x21"
  then show "w_uc (hook_intr h20 h21 r_ip0 w intno) = w_uc w"
    by (simp add: hook_intr_def Let_def)
next
  assume "uc_stop (w_uc (hook_intr h20 h21 r_ip0 w intno)) \<and> \<not> uc_stop (w_uc w)"
  then show "intno = 0x20 \<and> uc_stop (w_uc (h20 w)) \<or> intno = 0x21 \<and> uc_stop (w_uc (h21 w))"
    by (simp add: hook_intr_def Let_def split: if_splits)
next
  assume a: "uc_stop (w_uc (hook_intr int20 (int21 terminates service) r_ip0 w intno))
        \<and> \<not> uc_stop (w_uc w)"
  then show "hook_intr int20 (int21 terminates service) r_ip0 w intno = int20 w"
    by (auto simp: hook_intr_def int21_def Let_def split: if_splits prod.splits)
  from a show "intno = 0x20
      \<or> intno = 0x21 \<and> terminates (ucast (uc_reg_read (w_uc w) UC_X86_REG_AH))"
    by (auto simp: hook_intr_def int21_def Let_def split: if_splits prod.splits)
qed

theorem hook_intr_dispatch_witness:
  "(0x10 :: u32) \<noteq> 0x20 \<and> (0x10 :: u32) \<noteq> 0x21
   \<and> hook_intr int20 (int21 (\<lambda>a. a = 0x4C) (\<lambda>a w. (uc_regs (w_uc w), uc_mem (w_uc w), w_out w)))
        0xAAAA5555 \<lparr>w_uc = uc_reg_write uc_blank UC_X86_REG_IP 0x0102, w_out = []\<rparr> 0x10 =
      \<lparr>w_uc = uc_reg_write uc_blank UC_X86_REG_IP 0x0102,
        w_out = [(Stdout, Interrupt 0xAAAA0102 0x10 0)]\<rparr>
   \<and> uc_stop (w_uc (hook_intr int20 (int21 (\<lambda>a. a = 0x4C)
          (\<lambda>a w. (uc_regs (w_uc w), uc_mem (w_uc w), w_out w)))
        0 \<lparr>w_uc = uc_reg_write uc_blank UC_X86_REG_AH 0x4C, w_out = []\<rparr> 0x21))
   \<and> \<not> uc_stop (w_uc \<lparr>w_uc = uc_reg_write uc_blank UC_X86_REG_AH 0x4C, w_out = []\<rparr>)
   \<and> hook_intr int20 (int21 (\<lambda>a. a = 0x4C) (\<lambda>a w. (uc_regs (w_uc w), uc_mem (w_uc w), w_out w)))
        0 \<lparr>w_uc = uc_reg_write uc_blank UC_X86_REG_AH 0x4C, w_out = []\<rparr> 0x21 =
      int20 \<lparr>w_uc = uc_reg_write uc_blank UC_X86_REG_AH 0x4C, w_out = []\<rparr>
   \<and> \<not> uc_stop (w_uc (hook_intr int20 (int21 (\<lambda>a. a = 0x4C)
          (\<lambda>a w. (uc_regs (w_uc w), uc_mem (w_uc w), w_out w)))
        0 \<lparr>w_uc = uc_reg_write uc_blank UC_X86_REG_AH 0x02, w_out = []\<rparr> 0x21))"
proof -
  let ?svc = "\<lambda>(a::u8) (w::world). (uc_regs (w_uc w), uc_mem (w_uc w), w_out w)"
  let ?w = "\<lparr>w_uc = uc_reg_write uc_blank UC_X86_REG_AH 0x4C, w_out = []\<rparr>"
  have stop: "uc_stop (w_uc (hook_intr int20 (int21 (\<lambda>a. a = 0x4C) ?svc) 0 ?w 0x21))"
    by (simp add: hook_intr_def int21_def int20_def uc_reg_read_def uc_reg_write_def uc_blank_def)
  have before: "\<not> uc_stop (w_uc ?w)"
    by (simp add: uc_blank_def uc_reg_write_def)
  have other: "\<not> uc_stop (w_uc (hook_intr int20 (int21 (\<lambda>a. a = 0x4C) ?svc) 0
        \<lparr>w_uc = uc_reg_write uc_blank UC_X86_REG_AH 0x02, w_out = []\<rparr> 0x21))"
    by (simp add: hook_intr_def int21_def int20_def uc_reg_read_def uc_reg_write_def uc_blank_def)
  have line: "(0xAAAA5555 AND 0xFFFF0000) OR ucast (0x0102 :: u16) = (0xAAAA0102 :: u32)"
    by simp
  show ?thesis
    using stop before other
      hook_intr_dispatch [of "0x10" int20 "int21 (\<lambda>a. a = 0x4C) ?svc" "0xAAAA5555"
        "\<lparr>w_uc = uc_reg_write uc_blank UC_X86_REG_IP 0x0102, w_out = []\<rparr>" "\<lambda>a. a = 0x4C" ?svc]
      hook_intr_dispatch [of "0x21" int20 "int21 (\<lambda>a. a = 0x4C) ?svc" 0 ?w "\<lambda>a. a = 0x4C" ?svc]
    by (simp add: line uc_blank_def uc_reg_read_def uc_reg_write_def)
qed

subsection \<open>The driver\<close>

text \<open>
  C8, at the input where the code departs from it. When \<^verbatim>\<open>uc_open\<close> succeeds and
  \<^verbatim>\<open>uc_mem_map\<close> fails, \<open>main\<close> prints its diagnostic on standard error, never starts
  the emulation, and returns 0, where the claim has a nonzero exit code.
\<close>

theorem main_map_failure_exit_code:
  "main (host 0 1 (Some [0xCD, 0x20])) [''unidos'', ''a.com''] =
     Some \<lparr>exit_code = 0,
           printed = [(Stderr, Text ''Failed to write emulation code to memory, quit!'')],
           emulated = None\<rparr>"
  by (simp add: main_def host_def)

text \<open>The exit codes of the other paths: they are as C8 states them.\<close>

lemma main_exit_codes:
  "exit_code (the (main e [prog])) = - 1"
  "printed (the (main e [prog])) = usage prog"
  "fst ` set (usage prog) = {Stdout}"
  "env_open e \<noteq> 0 \<Longrightarrow> exit_code (the (main e (prog # fname # rest))) = 1"
  "env_open e = 0 \<Longrightarrow> env_map e = 0 \<Longrightarrow> env_file e fname = None \<Longrightarrow>
     exit_code (the (main e (prog # fname # rest))) = EXIT_FAILURE"
  "env_open e = 0 \<Longrightarrow> env_map e = 0 \<Longrightarrow> env_file e fname = Some f \<Longrightarrow>
     length f = 0 \<or> length f > 0xFF00 \<Longrightarrow>
     exit_code (the (main e (prog # fname # rest))) = EXIT_FAILURE"
  "env_open e = 0 \<Longrightarrow> env_map e = 0 \<Longrightarrow> env_file e fname = Some f \<Longrightarrow>
     0 < length f \<Longrightarrow> length f \<le> 0xFF00 \<Longrightarrow>
     length (env_memory e) = MEM_SIZE \<Longrightarrow> length (env_fresh e) = MEM_SIZE \<Longrightarrow>
     exit_code (the (main e (prog # fname # rest))) = 0"
proof -
  show "exit_code (the (main e [prog])) = - 1" "printed (the (main e [prog])) = usage prog"
    by (simp_all add: main_usage)
  show "fst ` set (usage prog) = {Stdout}"
    by (simp add: usage_def)
  show "env_open e \<noteq> 0 \<Longrightarrow> exit_code (the (main e (prog # fname # rest))) = 1"
    by (simp add: main_open_failure)
  show "env_open e = 0 \<Longrightarrow> env_map e = 0 \<Longrightarrow> env_file e fname = None \<Longrightarrow>
     exit_code (the (main e (prog # fname # rest))) = EXIT_FAILURE"
    using main_load_failure [of e fname ImageNotFound "[(Stderr, Perror ''Error'')]"
        EXIT_FAILURE prog rest]
      load_com_no_file [of "env_file e" fname]
    by simp
  show "env_open e = 0 \<Longrightarrow> env_map e = 0 \<Longrightarrow> env_file e fname = Some f \<Longrightarrow>
     length f = 0 \<or> length f > 0xFF00 \<Longrightarrow>
     exit_code (the (main e (prog # fname # rest))) = EXIT_FAILURE"
    using main_load_failure [of e fname ImageSizeInvalid
        "[(Stderr, Text ''Invalid file size'')]" EXIT_FAILURE prog rest]
      load_com_bad_size [of "env_file e" fname f]
    by simp
  show "env_open e = 0 \<Longrightarrow> env_map e = 0 \<Longrightarrow> env_file e fname = Some f \<Longrightarrow>
     0 < length f \<Longrightarrow> length f \<le> 0xFF00 \<Longrightarrow>
     length (env_memory e) = MEM_SIZE \<Longrightarrow> length (env_fresh e) = MEM_SIZE \<Longrightarrow>
     exit_code (the (main e (prog # fname # rest))) = 0"
    using main_success [of e fname f prog rest] by auto
qed

text \<open>
  C10. On every run that reaches the emulation, whatever the arguments, the guest memory
  that \<^verbatim>\<open>uc_emu_start\<close> is called on holds 0 in every byte of every PSP member that
  \<open>setup_psp\<close> does not write (all members but \<open>CPMExit\<close>, \<open>DOSFarCall\<close>, \<open>FCB1\<close>,
  \<open>CommandLineLength\<close> and \<open>CommandLine\<close>), and in every byte of \<open>FCB1\<close> after its
  first two.
\<close>

theorem unwritten_psp_bytes_zero:
  assumes "env_open e = 0" "env_map e = 0"
    and "env_file e fname = Some f" "0 < length f" "length f \<le> 0xff00"
    and "length (env_memory e) = MEM_SIZE" "length (env_fresh e) = MEM_SIZE"
    and "if fld = FCB1 then 2 \<le> k \<and> k < sizeof_member FCB1
         else fld \<notin> {CPMExit, DOSFarCall, CommandLineLength, CommandLine} \<and> k < sizeof_member fld"
  shows "\<exists>r U. main e (prog # fname # rest) = Some r \<and> emulated r = Some U
     \<and> uc_mem U ! (offsetof fld + k) = 0"
proof (rule guest_psp_zero [OF assms(1-7)])
  show "offsetof fld + k < offsetof CommandLineLength"
    using assms(8) by (cases fld) (simp_all add: offsetof_def sizeof_member_def PSP_def)
  show "offsetof fld + k \<noteq> offsetof CPMExit"
    using assms(8) by (cases fld) (simp_all add: offsetof_def sizeof_member_def PSP_def)
  show "offsetof fld + k \<noteq> offsetof CPMExit + 1"
    using assms(8) by (cases fld) (simp_all add: offsetof_def sizeof_member_def PSP_def)
  show "offsetof fld + k \<noteq> offsetof DOSFarCall"
    using assms(8) by (cases fld) (simp_all add: offsetof_def sizeof_member_def PSP_def)
  show "offsetof fld + k \<noteq> offsetof DOSFarCall + 1"
    using assms(8) by (cases fld) (simp_all add: offsetof_def sizeof_member_def PSP_def)
  show "offsetof fld + k \<noteq> offsetof DOSFarCall + 2"
    using assms(8) by (cases fld) (simp_all add: offsetof_def sizeof_member_def PSP_def)
  show "offsetof fld + k \<noteq> offsetof FCB1"
    using assms(8) by (cases fld) (simp_all add: offsetof_def sizeof_member_def PSP_def)
  show "offsetof fld + k \<noteq> offsetof FCB1 + 1"
    using assms(8) by (cases fld) (simp_all add: offsetof_def sizeof_member_def PSP_def)
qed

theorem unwritten_psp_bytes_zero_witness:
  "env_open (host 0 0 (Some [0xCD, 0x20])) = 0 \<and> env_map (host 0 0 (Some [0xCD, 0x20])) = 0
   \<and> env_file (host 0 0 (Some [0xCD, 0x20])) ''a.com'' = Some [0xCD, 0x20]
   \<and> 0 < length [0xCD, 0x20 :: u8] \<and> length [0xCD, 0x20 :: u8] \<le> 0xff00
   \<and> length (env_memory (host 0 0 (Some [0xCD, 0x20]))) = MEM_SIZE
   \<and> length (env_fresh (host 0 0 (Some [0xCD, 0x20]))) = MEM_SIZE
   \<and> DOSVersion \<noteq> FCB1
   \<and> DOSVersion \<notin> {CPMExit, DOSFarCall, CommandLineLength, CommandLine}
   \<and> 1 < sizeof_member DOSVersion
   \<and> (\<exists>r U. main (host 0 0 (Some [0xCD, 0x20])) [''unidos'', ''a.com'', ''foo''] = Some r
         \<and> emulated r = Some U \<and> uc_mem U ! (offsetof DOSVersion + 1) = 0)
   \<and> (2::nat) \<le> 5 \<and> 5 < sizeof_member FCB1
   \<and> (\<exists>r U. main (host 0 0 (Some [0xCD, 0x20])) [''unidos'', ''a.com'', ''foo''] = Some r
         \<and> emulated r = Some U \<and> uc_mem U ! (offsetof FCB1 + 5) = 0)"
proof -
  have h4: "0 < length [0xCD, 0x20 :: u8]" and h5: "length [0xCD, 0x20 :: u8] \<le> 0xff00"
    by simp_all
  have s1: "1 < sizeof_member DOSVersion" and s2: "5 < sizeof_member FCB1"
    by (simp_all add: sizeof_member_def PSP_def)
  have h8: "if DOSVersion = FCB1 then 2 \<le> (1::nat) \<and> 1 < sizeof_member FCB1
         else DOSVersion \<notin> {CPMExit, DOSFarCall, CommandLineLength, CommandLine}
              \<and> 1 < sizeof_member DOSVersion"
    using s1 by simp
  have h8': "if FCB1 = FCB1 then 2 \<le> (5::nat) \<and> 5 < sizeof_member FCB1
         else FCB1 \<notin> {CPMExit, DOSFarCall, CommandLineLength, CommandLine}
              \<and> 5 < sizeof_member FCB1"
    using s2 by simp
  show ?thesis
    using s1 s2
      unwritten_psp_bytes_zero [where e = "host 0 0 (Some [0xCD, 0x20])" and fname = "''a.com''"
        and f = "[0xCD, 0x20]" and fld = DOSVersion and k = 1 and prog = "''unidos''"
        and rest = "[''foo'']", OF _ _ _ h4 h5 _ _ h8]
      unwritten_psp_bytes_zero [where e = "host 0 0 (Some [0xCD, 0x20])" and fname = "''a.com''"
        and f = "[0xCD, 0x20]" and fld = FCB1 and k = 5 and prog = "''unidos''"
        and rest = "[''foo'']", OF _ _ _ h4 h5 _ _ h8']
    by (simp add: host_simps)
qed

end
